theory Spec2Isabelle
  imports Main "HOL-Library.AList" "HOL-Library.Sublist"
begin

section \<open>Text and JSON values\<close>

text \<open>
  The program is \<^verbatim>\<open>llm_utcp_client.py\<close>. Python text is modelled as \<^typ>\<open>string\<close>: a list
  of characters with code points 0..255. A JSON document decoded by \<^verbatim>\<open>json.loads\<close> is a
  value of the type \<open>json\<close>: a Python \<^verbatim>\<open>dict\<close> is an association list with distinct keys in
  insertion order, a Python \<^verbatim>\<open>float\<close> is kept as the literal it was read from
  (\<^verbatim>\<open>NaN\<close>, \<^verbatim>\<open>Infinity\<close> and \<^verbatim>\<open>-Infinity\<close> included), since no claim depends on its value.
\<close>

datatype json =
    JNull
  | JBool bool
  | JInt int
  | JFloat string
  | JString string
  | JArray "json list"
  | JObject "(string \<times> json) list"

abbreviation dquote :: char where "dquote \<equiv> CHR 0x22"
abbreviation backslash :: char where "backslash \<equiv> CHR 0x5C"
abbreviation squote :: char where "squote \<equiv> CHR 0x27"

section \<open>Regular expressions of the \<^verbatim>\<open>re\<close> module\<close>

text \<open>
  The two patterns of the source use literals, the classes \<^verbatim>\<open>\s\<close>, \<^verbatim>\<open>.\<close> (under
  \<^verbatim>\<open>re.DOTALL\<close>) and \<^verbatim>\<open>[\s\S]\<close>, the greedy star \<^verbatim>\<open>*\<close> and the lazy star \<^verbatim>\<open>*?\<close> on a class,
  and one capturing group. A pattern is a list of such items; \<open>re_match\<close> is the
  backtracking matcher anchored at the start of the text, \<open>re_search\<close> is
  \<^verbatim>\<open>pattern.search\<close>: the leftmost start position at which the matcher succeeds. Both
  return \<^verbatim>\<open>m.group(1)\<close>, and \<open>None\<close> for no match.
\<close>

datatype cls = AnyChar | Space | Lit char

text \<open>\<^verbatim>\<open>\s\<close> on a \<^verbatim>\<open>str\<close> pattern is Unicode whitespace; below 256 these are the code
  points 9..13, 28..32, 133 and 160.\<close>

definition is_space :: "char \<Rightarrow> bool" where
  "is_space c = (let n = (of_char c :: nat) in
     (9 \<le> n \<and> n \<le> 13) \<or> (28 \<le> n \<and> n \<le> 32) \<or> n = 133 \<or> n = 160)"

fun cls_match :: "cls \<Rightarrow> char \<Rightarrow> bool" where
  "cls_match AnyChar c = True"
| "cls_match Space c = is_space c"
| "cls_match (Lit a) c = (c = a)"

datatype item = One cls | Greedy cls | Lazy cls | GOpen | GClose

text \<open>The capture state: whether the group is open, and the text it has consumed.\<close>

type_synonym capture = "bool \<times> string"

fun push :: "capture \<Rightarrow> char \<Rightarrow> capture" where
  "push (inside, g) c = (inside, if inside then g @ [c] else g)"

fun re_match :: "item list \<Rightarrow> string \<Rightarrow> capture \<Rightarrow> string option" where
  "re_match [] s cap = Some (snd cap)"
| "re_match (GOpen # r) s cap = re_match r s (True, [])"
| "re_match (GClose # r) s cap = re_match r s (False, snd cap)"
| "re_match (One c # r) [] cap = None"
| "re_match (One c # r) (x # xs) cap =
     (if cls_match c x then re_match r xs (push cap x) else None)"
| "re_match (Greedy c # r) [] cap = re_match r [] cap"
| "re_match (Greedy c # r) (x # xs) cap =
     (if cls_match c x
      then (case re_match (Greedy c # r) xs (push cap x) of
              Some g \<Rightarrow> Some g
            | None \<Rightarrow> re_match r (x # xs) cap)
      else re_match r (x # xs) cap)"
| "re_match (Lazy c # r) [] cap = re_match r [] cap"
| "re_match (Lazy c # r) (x # xs) cap =
     (case re_match r (x # xs) cap of
        Some g \<Rightarrow> Some g
      | None \<Rightarrow> if cls_match c x then re_match (Lazy c # r) xs (push cap x) else None)"

fun re_search :: "item list \<Rightarrow> string \<Rightarrow> string option" where
  "re_search p [] = re_match p [] (False, [])"
| "re_search p (x # xs) =
     (case re_match p (x # xs) (False, []) of
        Some g \<Rightarrow> Some g
      | None \<Rightarrow> re_search p xs)"

definition lits :: "string \<Rightarrow> item list" where
  "lits s = map (\<lambda>c. One (Lit c)) s"

text \<open>\<^verbatim>\<open>TOOL_JSON_RE = re.compile(r"```json\s*({.*?})\s*```", re.DOTALL)\<close>\<close>

definition TOOL_JSON_RE :: "item list" where
  "TOOL_JSON_RE =
     lits ''```json'' @ [Greedy Space, GOpen, One (Lit CHR ''{''), Lazy AnyChar,
       One (Lit CHR ''}''), GClose, Greedy Space] @ lits ''```''"

text \<open>The fallback pattern \<^verbatim>\<open>r"(\{[\s\S]*\})"\<close> of \<^verbatim>\<open>extract_tool_json\<close>.\<close>

definition FALLBACK_RE :: "item list" where
  "FALLBACK_RE = [GOpen, One (Lit CHR ''{''), Greedy AnyChar, One (Lit CHR ''}''), GClose]"

text \<open>The part of \<open>TOOL_JSON_RE\<close> after the literal \<^verbatim>\<open>```json\<close> and the whitespace that
  follows it; used to state properties of the pattern.\<close>

definition TOOL_JSON_BODY :: "item list" where
  "TOOL_JSON_BODY =
     [GOpen, One (Lit CHR ''{''), Lazy AnyChar, One (Lit CHR ''}''), GClose, Greedy Space] @
     lits ''```''"

section \<open>\<^verbatim>\<open>json.loads\<close>\<close>

text \<open>
  \<^verbatim>\<open>json.loads\<close> belongs to the Python standard library. It is modelled after CPython's
  decoder (\<^verbatim>\<open>json/decoder.py\<close>, \<^verbatim>\<open>json/scanner.py\<close> and their C accelerator): optional
  whitespace, one value, optional whitespace, end of text. Every exception of the decoder
  is the result \<open>None\<close>. Two things are outside the model: limits of the interpreter
  (recursion depth, the length of an integer literal), and an escape \<^verbatim>\<open>\uXXXX\<close> that
  denotes a code point above 255, which has no character in \<^typ>\<open>string\<close> and is
  refused here.
\<close>

text \<open>\<^verbatim>\<open>WHITESPACE = re.compile(r'[ \t\n\r]*')\<close>\<close>

definition is_ws :: "char \<Rightarrow> bool" where
  "is_ws c = (c = CHR '' '' \<or> c = CHR 0x09 \<or> c = CHR 0x0A \<or> c = CHR 0x0D)"

definition skip_ws :: "string \<Rightarrow> string" where
  "skip_ws s = dropWhile is_ws s"

definition is_digit :: "char \<Rightarrow> bool" where
  "is_digit c = (let n = (of_char c :: nat) in 48 \<le> n \<and> n \<le> 57)"

definition digit_val :: "char \<Rightarrow> nat" where
  "digit_val c = of_char c - 48"

definition hex_val :: "char \<Rightarrow> nat option" where
  "hex_val c =
     (if is_digit c then Some (digit_val c)
      else if 97 \<le> (of_char c :: nat) \<and> (of_char c :: nat) \<le> 102 then Some (of_char c - 87)
      else if 65 \<le> (of_char c :: nat) \<and> (of_char c :: nat) \<le> 70 then Some (of_char c - 55)
      else None)"

text \<open>The four hexadecimal digits of a \<^verbatim>\<open>\uXXXX\<close> escape, as a character.\<close>

definition decode_uXXXX :: "string \<Rightarrow> char option" where
  "decode_uXXXX s =
     (case map hex_val (take 4 s) of
        [Some a, Some b, Some c, Some d] \<Rightarrow>
          (let n = ((a * 16 + b) * 16 + c) * 16 + d
           in if n < 256 then Some (char_of n) else None)
      | _ \<Rightarrow> None)"

text \<open>The table \<^verbatim>\<open>BACKSLASH\<close> of the decoder.\<close>

definition BACKSLASH :: "char \<Rightarrow> char option" where
  "BACKSLASH e =
     (if e = dquote then Some dquote
      else if e = backslash then Some backslash
      else if e = CHR ''/'' then Some CHR ''/''
      else if e = CHR ''b'' then Some (CHR 0x08)
      else if e = CHR ''f'' then Some (CHR 0x0C)
      else if e = CHR ''n'' then Some (CHR 0x0A)
      else if e = CHR ''r'' then Some (CHR 0x0D)
      else if e = CHR ''t'' then Some (CHR 0x09)
      else None)"

text \<open>\<^verbatim>\<open>scanstring\<close> with \<^verbatim>\<open>strict=True\<close>: the text starts after the opening quote; the
  result is the decoded string and the text after the closing quote.\<close>

fun scanstring :: "string \<Rightarrow> string \<Rightarrow> (string \<times> string) option" where
  "scanstring acc [] = None"
| "scanstring acc (c # cs) =
     (if c = dquote then Some (acc, cs)
      else if c = backslash then
        (case cs of
           [] \<Rightarrow> None
         | e # r \<Rightarrow>
             if e = CHR ''u'' then
               (case decode_uXXXX r of
                  None \<Rightarrow> None
                | Some ch \<Rightarrow> scanstring (acc @ [ch]) (drop 4 r))
             else
               (case BACKSLASH e of
                  None \<Rightarrow> None
                | Some ch \<Rightarrow> scanstring (acc @ [ch]) r))
      else if (of_char c :: nat) < 0x20 then None
      else scanstring (acc @ [c]) cs)"

definition int_of_digits :: "string \<Rightarrow> int" where
  "int_of_digits ds = int (foldl (\<lambda>n c. 10 * n + digit_val c) 0 ds)"

text \<open>\<^verbatim>\<open>NUMBER_RE = (-?(?:0|[1-9][0-9]*))(\.[0-9]+)?([eE][-+]?[0-9]+)?\<close>, matched at the start
  of the text: the result is the number and the text after it. A literal with a fraction or
  an exponent is a \<^verbatim>\<open>float\<close>, any other an \<^verbatim>\<open>int\<close>.\<close>

definition match_frac :: "string \<Rightarrow> string" where
  "match_frac s =
     (case s of
        c # d # r \<Rightarrow> if c = CHR ''.'' \<and> is_digit d then dropWhile is_digit r else s
      | _ \<Rightarrow> s)"

definition match_exp :: "string \<Rightarrow> string" where
  "match_exp s =
     (case s of
        [] \<Rightarrow> s
      | c # r \<Rightarrow>
          if c = CHR ''e'' \<or> c = CHR ''E'' then
            (let r' = (case r of
                         [] \<Rightarrow> r
                       | sg # t \<Rightarrow> if sg = CHR ''-'' \<or> sg = CHR ''+'' then t else r)
             in case r' of
                  [] \<Rightarrow> s
                | d # t \<Rightarrow> if is_digit d then dropWhile is_digit t else s)
          else s)"

definition scan_number :: "string \<Rightarrow> (json \<times> string) option" where
  "scan_number s =
     (let neg = (s \<noteq> [] \<and> hd s = CHR ''-'');
          s1 = (if neg then tl s else s)
      in case s1 of
           [] \<Rightarrow> None
         | d # r \<Rightarrow>
             if \<not> is_digit d then None
             else
               (let ds = (if d = CHR ''0'' then [d] else d # takeWhile is_digit r);
                    r1 = drop (length ds) s1;
                    r2 = match_exp (match_frac r1)
                in if length r2 < length r1
                   then Some (JFloat (take (length s - length r2) s), r2)
                   else Some (JInt (if neg then - int_of_digits ds else int_of_digits ds), r1)))"

definition starts_with :: "string \<Rightarrow> string \<Rightarrow> bool" where
  "starts_with p s = (take (length p) s = p)"

text \<open>
  \<open>parse_value\<close> is \<^verbatim>\<open>scan_once\<close>, \<open>parse_members\<close> the loop of \<^verbatim>\<open>JSONObject\<close> (the text
  starts after the opening quote of a key), \<open>parse_elements\<close> the loop of \<^verbatim>\<open>JSONArray\<close>
  (the text starts at a value). Each returns the value and the text after it. A recursive
  call is guarded by a test that the text has become shorter. The test serves the
  termination proof: every step before it consumes a character, so it holds whenever it
  is reached.
\<close>

function parse_value :: "string \<Rightarrow> (json \<times> string) option"
  and parse_members :: "(string \<times> json) list \<Rightarrow> string \<Rightarrow> (json \<times> string) option"
  and parse_elements :: "json list \<Rightarrow> string \<Rightarrow> (json \<times> string) option"
where
  "parse_value s =
     (case s of
        [] \<Rightarrow> None
      | c # cs \<Rightarrow>
          if c = dquote then
            (case scanstring [] cs of None \<Rightarrow> None | Some (t, r) \<Rightarrow> Some (JString t, r))
          else if c = CHR ''{'' then
            (case skip_ws cs of
               [] \<Rightarrow> None
             | d # r \<Rightarrow>
                 if d = CHR ''}'' then Some (JObject [], r)
                 else if d = dquote \<and> length r < length s then parse_members [] r
                 else None)
          else if c = CHR ''['' then
            (case skip_ws cs of
               [] \<Rightarrow> None
             | d # r \<Rightarrow>
                 if d = CHR '']'' then Some (JArray [], r)
                 else if length (d # r) < length s then parse_elements [] (d # r)
                 else None)
          else if starts_with ''null'' s then Some (JNull, drop 4 s)
          else if starts_with ''true'' s then Some (JBool True, drop 4 s)
          else if starts_with ''false'' s then Some (JBool False, drop 5 s)
          else
            (case scan_number s of
               Some res \<Rightarrow> Some res
             | None \<Rightarrow>
                 if starts_with ''NaN'' s then Some (JFloat ''NaN'', drop 3 s)
                 else if starts_with ''Infinity'' s then Some (JFloat ''Infinity'', drop 8 s)
                 else if starts_with ''-Infinity'' s then Some (JFloat ''-Infinity'', drop 9 s)
                 else None))"
| "parse_members pairs s =
     (case scanstring [] s of
        None \<Rightarrow> None
      | Some (key, r1) \<Rightarrow>
          (case skip_ws r1 of
             [] \<Rightarrow> None
           | c # r2 \<Rightarrow>
               if c \<noteq> CHR '':'' \<or> \<not> length (skip_ws r2) < Suc (length s) then None
               else
                 (case parse_value (skip_ws r2) of
                    None \<Rightarrow> None
                  | Some (v, r3) \<Rightarrow>
                      (let pairs' = AList.update key v pairs in
                       case skip_ws r3 of
                         [] \<Rightarrow> None
                       | d # r4 \<Rightarrow>
                           if d = CHR ''}'' then Some (JObject pairs', r4)
                           else if d = CHR '','' then
                             (case skip_ws r4 of
                                [] \<Rightarrow> None
                              | q # r5 \<Rightarrow>
                                  if q = dquote \<and> length r5 < length s
                                  then parse_members pairs' r5
                                  else None)
                           else None))))"
| "parse_elements vals s =
     (case parse_value s of
        None \<Rightarrow> None
      | Some (v, r1) \<Rightarrow>
          (case skip_ws r1 of
             [] \<Rightarrow> None
           | d # r2 \<Rightarrow>
               if d = CHR '']'' then Some (JArray (vals @ [v]), r2)
               else if d = CHR '','' \<and> length (skip_ws r2) < length s
               then parse_elements (vals @ [v]) (skip_ws r2)
               else None))"
  by pat_completeness auto
termination
  by (relation "measure (\<lambda>x. case x of
        Inl s \<Rightarrow> 3 * length s + 1
      | Inr (Inl (_, s)) \<Rightarrow> 3 * length s + 2
      | Inr (Inr (_, s)) \<Rightarrow> 3 * length s + 2)") auto

definition json_loads :: "string \<Rightarrow> json option" where
  "json_loads s =
     (case parse_value (skip_ws s) of
        None \<Rightarrow> None
      | Some (v, r) \<Rightarrow> if skip_ws r = [] then Some v else None)"

section \<open>\<^verbatim>\<open>extract_tool_json\<close>\<close>

definition extract_tool_json :: "string \<Rightarrow> json option" where
  "extract_tool_json s =
     (let m = re_search TOOL_JSON_RE s;
          m = (if m = None then re_search FALLBACK_RE s else m)
      in case m of
           None \<Rightarrow> None
         | Some g \<Rightarrow> json_loads g)"

section \<open>Python operations on decoded values\<close>

text \<open>
  An exception is modelled by what the program can observe of it: whether
  \<^verbatim>\<open>except Exception\<close> catches it, and its \<^verbatim>\<open>str()\<close>. \<open>BaseException\<close> stands for the
  exceptions outside \<^verbatim>\<open>Exception\<close> (\<^verbatim>\<open>asyncio.CancelledError\<close>, \<^verbatim>\<open>KeyboardInterrupt\<close>).
\<close>

datatype exn = Exception string | BaseException string

definition TypeError :: "string \<Rightarrow> exn" where
  "TypeError m = Exception m"

definition KeyError :: "string \<Rightarrow> exn" where
  "KeyError m = Exception m"

definition type_name :: "json \<Rightarrow> string" where
  "type_name v =
     (case v of
        JNull \<Rightarrow> ''NoneType'' | JBool _ \<Rightarrow> ''bool'' | JInt _ \<Rightarrow> ''int'' | JFloat _ \<Rightarrow> ''float''
      | JString _ \<Rightarrow> ''str'' | JArray _ \<Rightarrow> ''list'' | JObject _ \<Rightarrow> ''dict'')"

text \<open>Truth value testing (\<^verbatim>\<open>not tool_obj\<close>). A float literal is zero when its mantissa has
  no digit other than 0; a literal that underflows to zero is not modelled.\<close>

definition float_nonzero :: "string \<Rightarrow> bool" where
  "float_nonzero lit =
     (lit = ''NaN'' \<or> lit = ''Infinity'' \<or> lit = ''-Infinity'' \<or>
      (\<exists>c \<in> set (takeWhile (\<lambda>c. c \<noteq> CHR ''e'' \<and> c \<noteq> CHR ''E'') lit). is_digit c \<and> c \<noteq> CHR ''0''))"

fun py_truthy :: "json \<Rightarrow> bool" where
  "py_truthy JNull = False"
| "py_truthy (JBool b) = b"
| "py_truthy (JInt n) = (n \<noteq> 0)"
| "py_truthy (JFloat lit) = float_nonzero lit"
| "py_truthy (JString t) = (t \<noteq> [])"
| "py_truthy (JArray vs) = (vs \<noteq> [])"
| "py_truthy (JObject d) = (d \<noteq> [])"

text \<open>\<^verbatim>\<open>key in obj\<close> for a string \<open>key\<close>.\<close>

fun py_contains :: "json \<Rightarrow> string \<Rightarrow> exn + bool" where
  "py_contains (JObject d) k = Inr (map_of d k \<noteq> None)"
| "py_contains (JArray vs) k = Inr (JString k \<in> set vs)"
| "py_contains (JString t) k = Inr (sublist k t)"
| "py_contains v k =
     Inl (TypeError (''argument of type '' @ [squote] @ type_name v @ [squote] @ '' is not iterable''))"

text \<open>\<^verbatim>\<open>obj[key]\<close> for a string \<open>key\<close>.\<close>

fun py_getitem :: "json \<Rightarrow> string \<Rightarrow> exn + json" where
  "py_getitem (JObject d) k =
     (case map_of d k of
        Some v \<Rightarrow> Inr v
      | None \<Rightarrow> Inl (KeyError ([squote] @ k @ [squote])))"
| "py_getitem (JArray vs) k = Inl (TypeError ''list indices must be integers or slices, not str'')"
| "py_getitem (JString t) k = Inl (TypeError ''string indices must be integers, not str'')"
| "py_getitem v k =
     Inl (TypeError ([squote] @ type_name v @ [squote] @ '' object is not subscriptable''))"

section \<open>The state of the process and its collaborators\<close>

text \<open>
  A turn of the history is the tuple \<^verbatim>\<open>(role, content)\<close>; a message of a completion request
  is the dict \<^verbatim>\<open>{"role": ..., "content": ...}\<close>.
\<close>

type_synonym turn = "string \<times> string"

record message =
  role :: string
  content :: string

text \<open>
  The trace is a ghost variable: the calls the process has made to its collaborators, in
  order. \<open>EvCreate\<close> is the start of a construction of the client, \<open>EvSearch\<close> one
  call of \<^verbatim>\<open>search_tools\<close> with the exception it raised, if any, \<open>EvChat\<close> is one call of \<^verbatim>\<open>chat_complete\<close> with its messages and its outcome,
  \<open>EvTool\<close> one execution of the body of the \<^verbatim>\<open>try\<close> of \<^verbatim>\<open>handle_user_query\<close> with the tool
  name, the arguments and the outcome.
\<close>

datatype event =
    EvCreate
  | EvSearch string nat "exn option"
  | EvChat "message list" "exn + string"
  | EvTool json json "exn + string"

text \<open>
  \<open>world\<close> is the state of everything outside the process; \<open>utcp_client\<close> is the module
  global \<^verbatim>\<open>_utcp_client\<close>; \<open>heap\<close> holds the Python list objects (the histories) by address,
  \<open>next_addr\<close> is the first address not yet allocated.
\<close>

record ('w, 'c) state =
  world :: 'w
  utcp_client :: "'c option"
  heap :: "nat \<Rightarrow> turn list"
  next_addr :: nat
  trace :: "event list"

text \<open>
  The collaborators and the library functions the program calls. A remote call takes the
  world and returns its result, or the exception it raises, and the new world.
  \<^item> \<open>UtcpClient_create\<close>: \<^verbatim>\<open>UtcpClient.create(cfg)\<close>;
  \<^item> \<open>search_tools\<close>: \<^verbatim>\<open>client.search_tools(query, limit=limit)\<close>;
  \<^item> \<open>model_dump\<close>: \<^verbatim>\<open>t.model_dump()\<close>;
  \<^item> \<open>completion_content\<close>: \<^verbatim>\<open>oai.chat.completions.create(model=OPENAI_MODEL,
    messages=messages, temperature=0.2)\<close> followed by \<^verbatim>\<open>.choices[0].message.content\<close>,
    which is a string or \<^verbatim>\<open>None\<close>;
  \<^item> \<open>call_tool\<close>: \<^verbatim>\<open>client.call_tool(tool_name, arguments)\<close>;
  \<^item> \<open>result_dumps\<close>: \<^verbatim>\<open>json.dumps(tool_result, indent=2)\<close> on what a tool returned;
  \<^item> \<open>json_dumps\<close>: \<^verbatim>\<open>json.dumps(x, indent=2)\<close> on a decoded JSON value;
  \<^item> \<open>py_repr\<close>: \<^verbatim>\<open>repr(x)\<close> of a decoded JSON value.
\<close>

record ('w, 'c, 't, 'r) env =
  UtcpClient_create :: "'w \<Rightarrow> (exn + 'c) \<times> 'w"
  search_tools :: "'c \<Rightarrow> string \<Rightarrow> nat \<Rightarrow> 'w \<Rightarrow> (exn + 't list) \<times> 'w"
  model_dump :: "'t \<Rightarrow> json"
  completion_content :: "message list \<Rightarrow> 'w \<Rightarrow> (exn + string option) \<times> 'w"
  call_tool :: "'c \<Rightarrow> json \<Rightarrow> json \<Rightarrow> 'w \<Rightarrow> (exn + 'r) \<times> 'w"
  result_dumps :: "'r \<Rightarrow> exn + string"
  json_dumps :: "json \<Rightarrow> string"
  py_repr :: "json \<Rightarrow> string"

text \<open>A computation returns a value or raises, and leaves a state.\<close>

type_synonym ('a, 'w, 'c) prog = "('w, 'c) state \<Rightarrow> (exn + 'a) \<times> ('w, 'c) state"

definition return :: "'a \<Rightarrow> ('a, 'w, 'c) prog" where
  "return x st = (Inr x, st)"

definition bind :: "('a, 'w, 'c) prog \<Rightarrow> ('a \<Rightarrow> ('b, 'w, 'c) prog) \<Rightarrow> ('b, 'w, 'c) prog" where
  "bind m f st = (case m st of (Inl e, st') \<Rightarrow> (Inl e, st') | (Inr x, st') \<Rightarrow> f x st')"

definition lift :: "exn + 'a \<Rightarrow> ('a, 'w, 'c) prog" where
  "lift r st = (r, st)"

text \<open>A remote call: the collaborator runs on the world.\<close>

definition remote :: "('w \<Rightarrow> (exn + 'a) \<times> 'w) \<Rightarrow> ('w, 'c) state \<Rightarrow> (exn + 'a) \<times> ('w, 'c) state" where
  "remote f st = (case f (world st) of (r, w') \<Rightarrow> (r, st\<lparr>world := w'\<rparr>))"

text \<open>The list operations of the program, on the heap.\<close>

definition list_copy :: "nat \<Rightarrow> (nat, 'w, 'c) prog" where
  "list_copy a st =
     (Inr (next_addr st),
      st\<lparr>heap := (heap st)(next_addr st := heap st a), next_addr := Suc (next_addr st)\<rparr>)"

definition list_append :: "nat \<Rightarrow> turn \<Rightarrow> (unit, 'w, 'c) prog" where
  "list_append a x st = (Inr (), st\<lparr>heap := (heap st)(a := heap st a @ [x])\<rparr>)"

definition list_read :: "nat \<Rightarrow> (turn list, 'w, 'c) prog" where
  "list_read a st = (Inr (heap st a), st)"

section \<open>UTCP helpers\<close>

text \<open>
  \<^verbatim>\<open>init_utcp\<close> runs in two parts: up to \<^verbatim>\<open>await UtcpClient.create(cfg)\<close>, where the
  coroutine is suspended, and from the result of the construction on. \<open>init_utcp_begin\<close>
  returns the handle when the global is set (a client object is truthy), and otherwise
  starts the construction; \<open>init_utcp_resume\<close> receives what the construction returned or
  raised, assigns the global and returns the handle.
\<close>

definition init_utcp_begin :: "('w, 'c) state \<Rightarrow> 'c option \<times> ('w, 'c) state" where
  "init_utcp_begin st =
     (case utcp_client st of
        Some c \<Rightarrow> (Some c, st)
      | None \<Rightarrow> (None, st\<lparr>trace := trace st @ [EvCreate]\<rparr>))"

definition init_utcp_resume :: "('w, 'c, 't, 'r) env \<Rightarrow> ('c, 'w, 'c) prog" where
  "init_utcp_resume env st =
     (case remote (UtcpClient_create env) st of
        (Inl e, st') \<Rightarrow> (Inl e, st')
      | (Inr c, st') \<Rightarrow> (Inr c, st'\<lparr>utcp_client := Some c\<rparr>))"

definition init_utcp :: "('w, 'c, 't, 'r) env \<Rightarrow> ('c, 'w, 'c) prog" where
  "init_utcp env st =
     (case init_utcp_begin st of
        (Some c, st') \<Rightarrow> (Inr c, st')
      | (None, st') \<Rightarrow> init_utcp_resume env st')"

definition discover_tools ::
  "('w, 'c, 't, 'r) env \<Rightarrow> 'c \<Rightarrow> string \<Rightarrow> nat \<Rightarrow> ('t list, 'w, 'c) prog" where
  "discover_tools env client query limit st =
     (case remote (search_tools env client query limit) st of
        (r, st') \<Rightarrow>
          (r, st'\<lparr>trace := trace st' @
                 [EvSearch query limit (case r of Inl e \<Rightarrow> Some e | Inr tools \<Rightarrow> None)]\<rparr>))"

definition tools_to_json_for_prompt :: "('w, 'c, 't, 'r) env \<Rightarrow> 't list \<Rightarrow> string" where
  "tools_to_json_for_prompt env tools = json_dumps env (JArray (map (model_dump env) tools))"

section \<open>LLM prompts\<close>

definition newline :: string where
  "newline = [CHR 0x0A]"

definition TOOL_CALL_SYSTEM :: string where
  \<open>TOOL_CALL_SYSTEM =
     ''You are a careful network automation assistant.'' @ newline @
     ''You have access to a set of tools via UTCP. When a tool is needed, you MUST reply with ONLY a JSON object'' @ newline @
     ''containing exactly two keys: '' @ [squote] @ ''tool_name'' @ [squote] @ '' and '' @
       [squote] @ ''arguments'' @ [squote] @ '' (arguments must be a JSON object). No other text.'' @ newline @
     ''Example: {"tool_name": "netconf_tools.netconf_get_config", "arguments": {"host":"1.2.3.4", "source":"running"}}'' @ newline @ newline @
     ''Here are the available tools (names, descriptions, and JSON argument schemas):'' @ newline\<close>

definition FINAL_ANSWER_SYSTEM :: string where
  "FINAL_ANSWER_SYSTEM =
     ''You are a helpful assistant. Use the provided tool output to answer the user'' @ [squote] @
       ''s request concisely and clearly.'' @ newline @
     ''If the tool failed, explain the error and suggest the next troubleshooting step.'' @ newline"

definition build_tool_call_messages :: "turn list \<Rightarrow> string \<Rightarrow> message list" where
  "build_tool_call_messages history tools_json =
     \<lparr>role = ''system'', content = TOOL_CALL_SYSTEM @ tools_json @ newline\<rparr> #
     map (\<lambda>(r, c). \<lparr>role = r, content = c\<rparr>) history"

definition build_final_messages :: "turn list \<Rightarrow> string \<Rightarrow> message list" where
  "build_final_messages history tool_output =
     \<lparr>role = ''system'', content = FINAL_ANSWER_SYSTEM\<rparr> #
     map (\<lambda>(r, c). \<lparr>role = r, content = c\<rparr>) history @
     [\<lparr>role = ''user'',
       content = ''Tool output:'' @ newline @ tool_output @ newline @ newline @
         ''Please answer the original request using this output.''\<rparr>]"

text \<open>\<^verbatim>\<open>chat_complete\<close>: \<^verbatim>\<open>content or ""\<close> turns \<^verbatim>\<open>None\<close> (and the empty string) into the
  empty string.\<close>

definition chat_complete :: "('w, 'c, 't, 'r) env \<Rightarrow> message list \<Rightarrow> (string, 'w, 'c) prog" where
  "chat_complete env messages st =
     (case remote (completion_content env messages) st of
        (Inl e, st') \<Rightarrow> (Inl e, st'\<lparr>trace := trace st' @ [EvChat messages (Inl e)]\<rparr>)
      | (Inr c, st') \<Rightarrow>
          (let reply = (case c of None \<Rightarrow> [] | Some t \<Rightarrow> t)
           in (Inr reply, st'\<lparr>trace := trace st' @ [EvChat messages (Inr reply)]\<rparr>)))"

section \<open>Orchestration per user query\<close>

text \<open>\<^verbatim>\<open>str(x)\<close> in an f-string: a string is itself, any other value its \<^verbatim>\<open>repr\<close>.\<close>

definition py_str :: "('w, 'c, 't, 'r) env \<Rightarrow> json \<Rightarrow> string" where
  "py_str env v = (case v of JString t \<Rightarrow> t | _ \<Rightarrow> py_repr env v)"

text \<open>The condition \<^verbatim>\<open>not tool_obj or "tool_name" not in tool_obj or "arguments" not in
  tool_obj\<close>, evaluated from left to right; \<^verbatim>\<open>not None\<close> is true.\<close>

definition no_tool_chosen :: "json option \<Rightarrow> exn + bool" where
  "no_tool_chosen tool_obj =
     (case tool_obj of
        None \<Rightarrow> Inr True
      | Some obj \<Rightarrow>
          if \<not> py_truthy obj then Inr True
          else
            (case py_contains obj ''tool_name'' of
               Inl e \<Rightarrow> Inl e
             | Inr has_name \<Rightarrow>
                 if \<not> has_name then Inr True
                 else
                   (case py_contains obj ''arguments'' of
                      Inl e \<Rightarrow> Inl e
                    | Inr has_args \<Rightarrow> Inr (\<not> has_args))))"

text \<open>\<^verbatim>\<open>tool_obj[key]\<close>, reached only when \<open>no_tool_chosen\<close> is false, so that \<open>tool_obj\<close> is
  not \<^verbatim>\<open>None\<close>.\<close>

definition tool_obj_item :: "json option \<Rightarrow> string \<Rightarrow> exn + json" where
  "tool_obj_item tool_obj k =
     (case tool_obj of
        None \<Rightarrow> Inl (TypeError ([squote] @ ''NoneType'' @ [squote] @ '' object is not subscriptable''))
      | Some obj \<Rightarrow> py_getitem obj k)"

text \<open>\<^verbatim>\<open>json.dumps(tool_obj, indent=2)\<close>\<close>

definition dumps_tool_obj :: "('w, 'c, 't, 'r) env \<Rightarrow> json option \<Rightarrow> string" where
  "dumps_tool_obj env tool_obj = json_dumps env (case tool_obj of None \<Rightarrow> JNull | Some obj \<Rightarrow> obj)"

text \<open>The \<^verbatim>\<open>try\<close> statement of step 2: the outcome of the call and of the serialisation of its
  result is logged; \<^verbatim>\<open>except Exception\<close> turns an \<open>Exception\<close> into the diagnostic text and
  lets any other exception pass.\<close>

definition tool_error_text :: "('w, 'c, 't, 'r) env \<Rightarrow> json \<Rightarrow> json \<Rightarrow> string \<Rightarrow> string" where
  "tool_error_text env tool_name arguments msg =
     ''Tool call error for '' @ py_str env tool_name @ '' with args '' @ py_str env arguments @
     '':'' @ newline @ msg"

definition except_Exception ::
  "('w, 'c, 't, 'r) env \<Rightarrow> json \<Rightarrow> json \<Rightarrow> exn + string \<Rightarrow> exn + string" where
  "except_Exception env tool_name arguments outcome =
     (case outcome of
        Inr tool_result_text \<Rightarrow> Inr tool_result_text
      | Inl (Exception msg) \<Rightarrow> Inr (tool_error_text env tool_name arguments msg)
      | Inl (BaseException msg) \<Rightarrow> Inl (BaseException msg))"

definition try_call_tool ::
  "('w, 'c, 't, 'r) env \<Rightarrow> 'c \<Rightarrow> json \<Rightarrow> json \<Rightarrow> (string, 'w, 'c) prog" where
  "try_call_tool env client tool_name arguments st =
     (case remote (call_tool env client tool_name arguments) st of
        (r, st') \<Rightarrow>
          (let outcome = (case r of Inl e \<Rightarrow> Inl e | Inr tool_result \<Rightarrow> result_dumps env tool_result)
           in (except_Exception env tool_name arguments outcome,
               st'\<lparr>trace := trace st' @ [EvTool tool_name arguments outcome]\<rparr>)))"

text \<open>The result is \<^verbatim>\<open>(assistant_tool_json, tool_result_text, final_answer,
  updated_history)\<close>; the histories are addresses of list objects.\<close>

definition handle_user_query ::
  "('w, 'c, 't, 'r) env \<Rightarrow> string \<Rightarrow> nat \<Rightarrow> (string \<times> string \<times> string \<times> nat, 'w, 'c) prog" where
  "handle_user_query env user_text state_history =
     bind (init_utcp env) (\<lambda>client.
     bind (discover_tools env client ''netconf'' 50) (\<lambda>tools.
     let tools_json = tools_to_json_for_prompt env tools in
     bind (list_copy state_history) (\<lambda>history.
     bind (list_append history (''user'', user_text)) (\<lambda>_.
     bind (list_read history) (\<lambda>h1.
     bind (chat_complete env (build_tool_call_messages h1 tools_json)) (\<lambda>assistant_raw.
     let tool_obj = extract_tool_json assistant_raw in
     bind (lift (no_tool_chosen tool_obj)) (\<lambda>no_tool.
     if no_tool then
       bind (list_append history (''assistant'', assistant_raw)) (\<lambda>_.
       return (assistant_raw, ''(no tool called)'', assistant_raw, history))
     else
       bind (lift (tool_obj_item tool_obj ''tool_name'')) (\<lambda>tool_name.
       bind (lift (tool_obj_item tool_obj ''arguments'')) (\<lambda>arguments.
       bind (try_call_tool env client tool_name arguments) (\<lambda>tool_result_text.
       bind (list_append history (''assistant'', dumps_tool_obj env tool_obj)) (\<lambda>_.
       bind (list_read history) (\<lambda>h2.
       bind (chat_complete env (build_final_messages h2 tool_result_text)) (\<lambda>final_answer.
       bind (list_append history (''assistant'', final_answer)) (\<lambda>_.
       return (dumps_tool_obj env tool_obj, tool_result_text, final_answer, history)))))))))))))))"

section \<open>Concurrent calls of \<^verbatim>\<open>init_utcp\<close>\<close>

text \<open>
  The event loop runs one coroutine at a time and changes coroutine only at an
  \<^verbatim>\<open>await\<close>. A task that runs \<^verbatim>\<open>init_utcp\<close> is not started, suspended in
  \<^verbatim>\<open>await UtcpClient.create(cfg)\<close>, or finished with its result. \<open>task_step\<close> runs a task
  up to its next suspension; \<open>run_schedule\<close> runs the tasks in the order in which the event
  loop resumes them (a list of task numbers).
\<close>

datatype 'c task = NotStarted | Suspended | Finished "exn + 'c"

definition task_step ::
  "('w, 'c, 't, 'r) env \<Rightarrow> ('w, 'c) state \<Rightarrow> 'c task \<Rightarrow> ('w, 'c) state \<times> 'c task" where
  "task_step env st t =
     (case t of
        NotStarted \<Rightarrow>
          (case init_utcp_begin st of
             (Some c, st') \<Rightarrow> (st', Finished (Inr c))
           | (None, st') \<Rightarrow> (st', Suspended))
      | Suspended \<Rightarrow> (case init_utcp_resume env st of (r, st') \<Rightarrow> (st', Finished r))
      | Finished r \<Rightarrow> (st, Finished r))"

fun run_schedule ::
  "('w, 'c, 't, 'r) env \<Rightarrow> nat list \<Rightarrow> ('w, 'c) state \<times> 'c task list \<Rightarrow> ('w, 'c) state \<times> 'c task list" where
  "run_schedule env [] cfg = cfg"
| "run_schedule env (i # sched) (st, tasks) =
     (if i < length tasks
      then (case task_step env st (tasks ! i) of
              (st', t') \<Rightarrow> run_schedule env sched (st', tasks[i := t']))
      else run_schedule env sched (st, tasks))"

section \<open>Observations on the trace\<close>

definition new_events :: "('w, 'c) state \<Rightarrow> ('w, 'c) state \<Rightarrow> event list" where
  "new_events st st' = drop (length (trace st)) (trace st')"

fun is_chat :: "event \<Rightarrow> bool" where
  "is_chat (EvChat m r) = True"
| "is_chat ev = False"

fun is_tool :: "event \<Rightarrow> bool" where
  "is_tool (EvTool n a r) = True"
| "is_tool ev = False"

text \<open>The number of calls of \<^verbatim>\<open>chat_complete\<close>, the number of tool executions and the
  number of client constructions in a list of events.\<close>

definition completion_calls :: "event list \<Rightarrow> nat" where
  "completion_calls evs = length (filter is_chat evs)"

definition tool_calls :: "event list \<Rightarrow> nat" where
  "tool_calls evs = length (filter is_tool evs)"

definition constructions :: "event list \<Rightarrow> nat" where
  "constructions evs = length (filter (\<lambda>ev. ev = EvCreate) evs)"

text \<open>The reply of the first completion call in a list of events: the phase-1 reply.\<close>

definition phase1_reply :: "event list \<Rightarrow> string option" where
  "phase1_reply evs =
     (case filter is_chat evs of
        EvChat m (Inr reply) # rest \<Rightarrow> Some reply
      | _ \<Rightarrow> None)"

section \<open>A sample environment\<close>

text \<open>
  Collaborators for running the orchestrator on concrete inputs. The world is a counter:
  each construction of a client returns the next handle. The catalogue has one tool, the
  phase-1 completion returns the content \<open>reply\<close>, the phase-2 completion (recognised by
  its system prompt) returns a fixed answer, and the tool call has the outcome \<open>result\<close>.
\<close>

definition sample_env :: "string option \<Rightarrow> exn + json \<Rightarrow> (nat, nat, string, json) env" where
  "sample_env reply result =
     \<lparr>UtcpClient_create = (\<lambda>w. (Inr w, Suc w)),
      search_tools = (\<lambda>c q l w. (Inr [''netconf_get_config''], w)),
      model_dump = (\<lambda>t. JObject [(''name'', JString t)]),
      completion_content =
        (\<lambda>msgs w.
           (case msgs of
              [] \<Rightarrow> Inl (Exception ''no messages'')
            | m # ms \<Rightarrow>
                if content m = FINAL_ANSWER_SYSTEM then Inr (Some ''Here is the answer.'')
                else Inr reply,
            w)),
      call_tool = (\<lambda>c n a w. (result, w)),
      result_dumps = (\<lambda>r. Inr ''result''),
      json_dumps = (\<lambda>j. ''json''),
      py_repr = (\<lambda>j. ''repr'')\<rparr>"

text \<open>A state in which the caller's history is the list at address 0 and no client has
  been constructed.\<close>

definition sample_state :: "(nat, nat) state" where
  "sample_state =
     \<lparr>world = 7, utcp_client = None,
      heap = (\<lambda>a. if a = 0 then [(''user'', ''hi''), (''assistant'', ''hello'')] else []),
      next_addr = 1, trace = []\<rparr>"

section \<open>The balanced scan of the specification\<close>

text \<open>
  The specification describes the fallback as a balanced-brace scan: from the first
  \<^verbatim>\<open>{\<close>, track the nesting depth and stop at the matching closer. \<open>spec_balanced_span\<close>
  follows these words; it is compared with the pattern of the source, \<open>FALLBACK_RE\<close>.
\<close>

fun spec_balanced_take :: "nat \<Rightarrow> string \<Rightarrow> string option" where
  "spec_balanced_take d [] = None"
| "spec_balanced_take d (c # cs) =
     (if c = CHR ''{'' then map_option ((#) c) (spec_balanced_take (Suc d) cs)
      else if c = CHR ''}'' then
        (if d \<le> 1 then Some [c] else map_option ((#) c) (spec_balanced_take (d - 1) cs))
      else map_option ((#) c) (spec_balanced_take d cs))"

definition spec_balanced_span :: "string \<Rightarrow> string option" where
  "spec_balanced_span s = spec_balanced_take 0 (dropWhile (\<lambda>c. c \<noteq> CHR ''{'') s)"

section \<open>Properties of the matcher\<close>

lemma push_outside [simp]: "push (False, g) c = (False, g)"
  by simp

text \<open>A pattern with a literal that the text does not contain cannot match.\<close>

lemma re_match_needs_lit:
  "One (Lit a) \<in> set p \<Longrightarrow> a \<notin> set s \<Longrightarrow> re_match p s cap = None"
  by (induction p s cap rule: re_match.induct) (auto split: option.splits)

lemma re_search_needs_lit:
  "One (Lit a) \<in> set p \<Longrightarrow> a \<notin> set s \<Longrightarrow> re_search p s = None"
  by (induction s) (auto simp: re_match_needs_lit)

text \<open>Outside the group, a pattern that does not open it returns the capture as it is.\<close>

lemma re_match_closed:
  "GOpen \<notin> set p \<Longrightarrow> re_match p s (False, g) = None \<or> re_match p s (False, g) = Some g"
  by (induction p s "(False, g)" rule: re_match.induct) (auto split: option.splits)

lemma fallback_tail_None:
  "CHR ''}'' \<notin> set post \<Longrightarrow>
   re_match [Greedy AnyChar, One (Lit CHR ''}''), GClose] post cap = None"
  by (rule re_match_needs_lit) auto

text \<open>The greedy star runs to the end of the text and comes back to the last \<^verbatim>\<open>}\<close>.\<close>

lemma fallback_greedy:
  "CHR ''}'' \<notin> set post \<Longrightarrow>
   re_match [Greedy AnyChar, One (Lit CHR ''}''), GClose] (mid @ CHR ''}'' # post) (True, g)
     = Some (g @ mid @ ''}'')"
  by (induction mid arbitrary: g) (auto simp: fallback_tail_None)

lemma fallback_skip:
  "CHR ''{'' \<notin> set pre \<Longrightarrow>
   re_search FALLBACK_RE (pre @ CHR ''{'' # s) = re_search FALLBACK_RE (CHR ''{'' # s)"
  by (induction pre) (auto simp: FALLBACK_RE_def)

lemma fallback_span:
  "CHR ''{'' \<notin> set pre \<Longrightarrow> CHR ''}'' \<notin> set post \<Longrightarrow>
   re_search FALLBACK_RE (pre @ ''{'' @ mid @ ''}'' @ post) = Some (''{'' @ mid @ ''}'')"
  using fallback_greedy[of post mid "''{''"]
  by (simp add: fallback_skip) (simp add: FALLBACK_RE_def)

section \<open>The two tiers of \<^verbatim>\<open>extract_tool_json\<close>\<close>

text \<open>
  Claim C4, as stated, says that a fenced block whose content fails to parse makes
  \<^verbatim>\<open>extract_tool_json\<close> fall back to the brace-delimited substring of the whole text. It
  fails on the reply \<^verbatim>\<open>{"tool_name":"t","arguments":{"x":"```json{y}```"}}\<close>: the fenced
  pattern matches \<^verbatim>\<open>{y}\<close>, which is not JSON, and the result is \<^verbatim>\<open>None\<close>, although the
  fallback pattern selects the whole reply and the whole reply decodes to an object with
  both keys.
\<close>

theorem fenced_parse_failure_no_fallback:
  \<open>re_search TOOL_JSON_RE ''{"tool_name":"t","arguments":{"x":"```json{y}```"}}'' = Some ''{y}''
   \<and> json_loads ''{y}'' = None
   \<and> extract_tool_json ''{"tool_name":"t","arguments":{"x":"```json{y}```"}}'' = None
   \<and> re_search FALLBACK_RE ''{"tool_name":"t","arguments":{"x":"```json{y}```"}}''
       = Some ''{"tool_name":"t","arguments":{"x":"```json{y}```"}}''
   \<and> json_loads ''{"tool_name":"t","arguments":{"x":"```json{y}```"}}''
       = Some (JObject [(''tool_name'', JString ''t''),
                        (''arguments'', JObject [(''x'', JString ''```json{y}```'')])])\<close>
  by code_simp

text \<open>
  Claim C4, amended: when the fenced pattern matches, \<^verbatim>\<open>extract_tool_json\<close> decodes the
  captured content and nothing else, so that a content that fails to decode gives
  \<^verbatim>\<open>None\<close>; the fallback pattern is tried only when the fenced pattern does not match, and
  then the result is the decoding of what the fallback captures, or \<^verbatim>\<open>None\<close> when it
  does not match either.
\<close>

theorem extract_tool_json_tiers:
  "(re_search TOOL_JSON_RE s = Some g \<longrightarrow> extract_tool_json s = json_loads g) \<and>
   (re_search TOOL_JSON_RE s = None \<longrightarrow>
      extract_tool_json s =
        (case re_search FALLBACK_RE s of None \<Rightarrow> None | Some g' \<Rightarrow> json_loads g'))"
  by (simp add: extract_tool_json_def)

theorem extract_tool_json_tiers_witness:
  \<open>(re_search TOOL_JSON_RE ''```json{y}```'' = Some ''{y}''
     \<and> extract_tool_json ''```json{y}```'' = json_loads ''{y}'')
   \<and> (re_search TOOL_JSON_RE ''{"a":1}'' = None
     \<and> extract_tool_json ''{"a":1}''
         = (case re_search FALLBACK_RE ''{"a":1}'' of None \<Rightarrow> None | Some g' \<Rightarrow> json_loads g'))\<close>
proof -
  have h1: \<open>re_search TOOL_JSON_RE ''```json{y}```'' = Some ''{y}''\<close>
    by code_simp
  have h2: \<open>re_search TOOL_JSON_RE ''{"a":1}'' = None\<close>
    by code_simp
  show ?thesis
    using h1 h2
      extract_tool_json_tiers [of \<open>''```json{y}```''\<close> \<open>''{y}''\<close>]
      extract_tool_json_tiers [of \<open>''{"a":1}''\<close>]
    by blast
qed

text \<open>
  Claim C5, as stated, says that the fallback selects the first balanced object. It fails
  on a reply with two objects: the pattern of the source selects the span from the first
  \<^verbatim>\<open>{\<close> to the last \<^verbatim>\<open>}\<close>, which is the whole reply and does not decode, and the result
  is \<^verbatim>\<open>None\<close>; the balanced scan of the specification selects the first object, which
  decodes.
\<close>

theorem fallback_not_balanced:
  \<open>re_search TOOL_JSON_RE ''{"tool_name":"t","arguments":{}} {"tool_name":"u","arguments":{}}'' = None
   \<and> re_search FALLBACK_RE ''{"tool_name":"t","arguments":{}} {"tool_name":"u","arguments":{}}''
       = Some ''{"tool_name":"t","arguments":{}} {"tool_name":"u","arguments":{}}''
   \<and> spec_balanced_span ''{"tool_name":"t","arguments":{}} {"tool_name":"u","arguments":{}}''
       = Some ''{"tool_name":"t","arguments":{}}''
   \<and> extract_tool_json ''{"tool_name":"t","arguments":{}} {"tool_name":"u","arguments":{}}'' = None
   \<and> json_loads ''{"tool_name":"t","arguments":{}}''
       = Some (JObject [(''tool_name'', JString ''t''), (''arguments'', JObject [])])\<close>
  by code_simp

text \<open>
  Claim C5, amended: for a text in which the fenced pattern does not match, the fallback
  selects the substring from the first \<^verbatim>\<open>{\<close> to the last \<^verbatim>\<open>}\<close> of the text (the greedy
  span), and \<^verbatim>\<open>extract_tool_json\<close> returns the decoding of that substring.
\<close>

theorem fallback_greedy_span:
  assumes "re_search TOOL_JSON_RE (pre @ ''{'' @ mid @ ''}'' @ post) = None"
    and "CHR ''{'' \<notin> set pre"
    and "CHR ''}'' \<notin> set post"
  shows "re_search FALLBACK_RE (pre @ ''{'' @ mid @ ''}'' @ post) = Some (''{'' @ mid @ ''}'')
       \<and> extract_tool_json (pre @ ''{'' @ mid @ ''}'' @ post) = json_loads (''{'' @ mid @ ''}'')"
  using assms fallback_span [of pre post mid]
  by (simp add: extract_tool_json_def)

theorem fallback_greedy_span_witness:
  \<open>re_search TOOL_JSON_RE (''call '' @ ''{'' @ ''"a":{}} {"b":1'' @ ''}'' @ '' done'') = None
   \<and> CHR ''{'' \<notin> set ''call ''
   \<and> CHR ''}'' \<notin> set '' done''
   \<and> re_search FALLBACK_RE (''call '' @ ''{'' @ ''"a":{}} {"b":1'' @ ''}'' @ '' done'')
       = Some (''{'' @ ''"a":{}} {"b":1'' @ ''}'')
   \<and> extract_tool_json (''call '' @ ''{'' @ ''"a":{}} {"b":1'' @ ''}'' @ '' done'')
       = json_loads (''{'' @ ''"a":{}} {"b":1'' @ ''}'')\<close>
proof -
  have h1: \<open>re_search TOOL_JSON_RE (''call '' @ ''{'' @ ''"a":{}} {"b":1'' @ ''}'' @ '' done'') = None\<close>
    by code_simp
  have h2: "CHR ''{'' \<notin> set ''call ''"
    by simp
  have h3: "CHR ''}'' \<notin> set '' done''"
    by simp
  show ?thesis
    using h1 h2 h3 fallback_greedy_span [OF h1 h2 h3] by blast
qed

section \<open>The fenced pattern on a reply with one object\<close>

lemma TOOL_JSON_RE_split: "TOOL_JSON_RE = lits ''```json'' @ Greedy Space # TOOL_JSON_BODY"
  by (simp add: TOOL_JSON_RE_def TOOL_JSON_BODY_def)

lemma body_needs_brace: "x \<noteq> CHR ''{'' \<Longrightarrow> re_match TOOL_JSON_BODY (x # t) cap = None"
  by (simp add: TOOL_JSON_BODY_def)

lemma greedy_space_before_brace:
  "CHR ''{'' \<notin> set ws \<Longrightarrow>
   re_match (Greedy Space # TOOL_JSON_BODY) (ws @ CHR ''{'' # t) (False, g) = None \<or>
   re_match (Greedy Space # TOOL_JSON_BODY) (ws @ CHR ''{'' # t) (False, g) = re_match TOOL_JSON_BODY (CHR ''{'' # t) (False, g)"
proof (induction ws)
  case Nil
  then show ?case by (simp add: is_space_def)
next
  case (Cons x ws)
  then show ?case by (auto simp: body_needs_brace split: option.splits)
qed

lemma lits_before_brace:
  "CHR ''{'' \<notin> set l \<Longrightarrow> CHR ''{'' \<notin> set pre \<Longrightarrow>
   re_match (lits l @ Greedy Space # TOOL_JSON_BODY) (pre @ CHR ''{'' # t) (False, g) = None \<or>
   re_match (lits l @ Greedy Space # TOOL_JSON_BODY) (pre @ CHR ''{'' # t) (False, g) = re_match TOOL_JSON_BODY (CHR ''{'' # t) (False, g)"
proof (induction l arbitrary: pre)
  case Nil
  then show ?case using greedy_space_before_brace[of pre t g] by (simp add: lits_def)
next
  case (Cons a l)
  show ?case
  proof (cases pre)
    case Nil
    with Cons.prems show ?thesis by (simp add: lits_def)
  next
    case (Cons x pre')
    with Cons.prems Cons.IH[of pre'] show ?thesis by (simp add: lits_def)
  qed
qed

lemma tool_json_before_brace:
  "CHR ''{'' \<notin> set pre \<Longrightarrow>
   re_match TOOL_JSON_RE (pre @ CHR ''{'' # t) (False, []) = None \<or>
   re_match TOOL_JSON_RE (pre @ CHR ''{'' # t) (False, []) = re_match TOOL_JSON_BODY (CHR ''{'' # t) (False, [])"
  unfolding TOOL_JSON_RE_split by (rule lits_before_brace) auto

lemma after_group:
  "re_match (Greedy Space # lits ''```'') post (False, g) = None \<or>
   re_match (Greedy Space # lits ''```'') post (False, g) = Some g"
  by (rule re_match_closed) (auto simp: lits_def)

lemma lazy_tail_None:
  "CHR ''}'' \<notin> set post \<Longrightarrow>
   re_match (Lazy AnyChar # One (Lit CHR ''}'') # GClose # Greedy Space # lits ''```'') post cap = None"
  by (rule re_match_needs_lit) auto

lemma body_on_object:
  assumes "CHR ''}'' \<notin> set post"
  shows \<open>re_match TOOL_JSON_BODY (''{"tool_name":"t","arguments":{"a":1}}'' @ post) (False, []) = None \<or>
   re_match TOOL_JSON_BODY (''{"tool_name":"t","arguments":{"a":1}}'' @ post) (False, [])
     = Some ''{"tool_name":"t","arguments":{"a":1}}''\<close>
  using after_group[of post \<open>''{"tool_name":"t","arguments":{"a":1}}''\<close>] lazy_tail_None[OF assms]
  by (auto simp: TOOL_JSON_BODY_def is_space_def lits_def)


lemma search_in_object:
  assumes "CHR ''{'' \<notin> set post"
  shows \<open>re_search TOOL_JSON_RE (''{"tool_name":"t","arguments":{"a":1}}'' @ post) = None\<close>
proof -
  have "re_search TOOL_JSON_RE post = None"
    by (rule re_search_needs_lit[where a = "CHR ''{''"]) (use assms in \<open>auto simp: TOOL_JSON_RE_def\<close>)
  moreover have "\<And>c t. c \<noteq> CHR 0x60 \<Longrightarrow> re_match TOOL_JSON_RE (c # t) (False, []) = None"
    by (simp add: TOOL_JSON_RE_def lits_def)
  ultimately show ?thesis by simp
qed

lemma search_before_object:
  assumes "CHR ''{'' \<notin> set pre" and "CHR ''{'' \<notin> set post" and "CHR ''}'' \<notin> set post"
  shows \<open>re_search TOOL_JSON_RE (pre @ ''{"tool_name":"t","arguments":{"a":1}}'' @ post) = None \<or>
    re_search TOOL_JSON_RE (pre @ ''{"tool_name":"t","arguments":{"a":1}}'' @ post)
      = Some ''{"tool_name":"t","arguments":{"a":1}}''\<close>
  using assms(1)
proof (induction pre)
  case Nil
  then show ?case using search_in_object[OF assms(2)] by simp
next
  case (Cons x pre)
  have \<open>re_match TOOL_JSON_RE ((x # pre) @ CHR ''{'' # (''"tool_name":"t","arguments":{"a":1}}'' @ post)) (False, []) = None \<or>
        re_match TOOL_JSON_RE ((x # pre) @ CHR ''{'' # (''"tool_name":"t","arguments":{"a":1}}'' @ post)) (False, [])
          = re_match TOOL_JSON_BODY (CHR ''{'' # (''"tool_name":"t","arguments":{"a":1}}'' @ post)) (False, [])\<close>
    by (rule tool_json_before_brace) (use Cons.prems in simp)
  with body_on_object[OF assms(3)] Cons show ?case
    by (auto split: option.splits)
qed

lemma loads_object:
  \<open>json_loads ''{"tool_name":"t","arguments":{"a":1}}'' =
     Some (JObject [(''tool_name'', JString ''t''), (''arguments'', JObject [(''a'', JInt 1)])])\<close>
  by code_simp

text \<open>
  Claim C6: for the reply that consists of the fenced block
  \<^verbatim>\<open>```json\n{"tool_name":"t","arguments":{"a":1}}\n```\<close>, \<^verbatim>\<open>extract_tool_json\<close> returns exactly
  the object with \<^verbatim>\<open>tool_name\<close> \<^verbatim>\<open>"t"\<close> and \<^verbatim>\<open>arguments\<close> \<^verbatim>\<open>{"a": 1}\<close>; and for every reply
  that contains the same object unfenced as its only brace-delimited text (no brace before
  it and none after it), it returns the identical object.
\<close>

theorem extract_fenced_unfenced_same:
  \<open>extract_tool_json (''```json'' @ newline @ ''{"tool_name":"t","arguments":{"a":1}}'' @ newline @ ''```'')
     = Some (JObject [(''tool_name'', JString ''t''), (''arguments'', JObject [(''a'', JInt 1)])])
   \<and> (\<forall>pre post. CHR ''{'' \<notin> set pre \<and> CHR ''}'' \<notin> set pre \<and> CHR ''{'' \<notin> set post \<and> CHR ''}'' \<notin> set post \<longrightarrow>
        extract_tool_json (pre @ ''{"tool_name":"t","arguments":{"a":1}}'' @ post)
          = Some (JObject [(''tool_name'', JString ''t''), (''arguments'', JObject [(''a'', JInt 1)])]))\<close>
proof (intro conjI allI impI)
  show \<open>extract_tool_json (''```json'' @ newline @ ''{"tool_name":"t","arguments":{"a":1}}'' @ newline @ ''```'')
     = Some (JObject [(''tool_name'', JString ''t''), (''arguments'', JObject [(''a'', JInt 1)])])\<close>
    by code_simp
next
  fix pre post :: string
  assume h: "CHR ''{'' \<notin> set pre \<and> CHR ''}'' \<notin> set pre \<and> CHR ''{'' \<notin> set post \<and> CHR ''}'' \<notin> set post"
  have fb: \<open>re_search FALLBACK_RE (pre @ ''{'' @ ''"tool_name":"t","arguments":{"a":1}'' @ ''}'' @ post)
      = Some (''{'' @ ''"tool_name":"t","arguments":{"a":1}'' @ ''}'')\<close>
    by (rule fallback_span) (use h in auto)
  from h search_before_object[of pre post] fb loads_object
  show \<open>extract_tool_json (pre @ ''{"tool_name":"t","arguments":{"a":1}}'' @ post)
          = Some (JObject [(''tool_name'', JString ''t''), (''arguments'', JObject [(''a'', JInt 1)])])\<close>
    by (auto simp: extract_tool_json_def)
qed

theorem extract_fenced_unfenced_same_witness:
  \<open>(CHR ''{'' \<notin> set ''Calling: '' \<and> CHR ''}'' \<notin> set ''Calling: '' \<and> CHR ''{'' \<notin> set '' now'' \<and> CHR ''}'' \<notin> set '' now'')
   \<and> extract_tool_json (''Calling: '' @ ''{"tool_name":"t","arguments":{"a":1}}'' @ '' now'')
          = Some (JObject [(''tool_name'', JString ''t''), (''arguments'', JObject [(''a'', JInt 1)])])\<close>
proof -
  have h: "CHR ''{'' \<notin> set ''Calling: '' \<and> CHR ''}'' \<notin> set ''Calling: '' \<and> CHR ''{'' \<notin> set '' now'' \<and> CHR ''}'' \<notin> set '' now''"
    by simp
  show ?thesis using h extract_fenced_unfenced_same by blast
qed

section \<open>The effect of each step of the orchestrator\<close>

lemma bindE:
  assumes "bind m f st = (out, st')"
  obtains (raised) e where "m st = (Inl e, st')" "out = Inl e"
        | (returned) x s1 where "m st = (Inr x, s1)" "f x s1 = (out, st')"
  using assms by (auto simp: bind_def split: prod.splits sum.splits)

lemma init_utcp_effect:
  assumes "init_utcp env st = (r, s1)"
  shows "heap s1 = heap st \<and> next_addr s1 = next_addr st \<and>
         (trace s1 = trace st \<or> trace s1 = trace st @ [EvCreate])"
  using assms
  by (auto simp: init_utcp_def init_utcp_begin_def init_utcp_resume_def remote_def
           split: option.splits prod.splits sum.splits)

lemma discover_tools_effect:
  assumes "discover_tools env c q l st = (r, s1)"
  shows "heap s1 = heap st \<and> next_addr s1 = next_addr st \<and>
         trace s1 = trace st @ [EvSearch q l (case r of Inl e \<Rightarrow> Some e | Inr tools \<Rightarrow> None)]"
  using assms
  by (auto simp: discover_tools_def remote_def split: prod.splits)

lemma chat_complete_effect:
  assumes "chat_complete env m st = (r, s1)"
  shows "heap s1 = heap st \<and> next_addr s1 = next_addr st \<and> trace s1 = trace st @ [EvChat m r]"
  using assms
  by (auto simp: chat_complete_def remote_def Let_def split: prod.splits sum.splits)

lemma try_call_tool_effect:
  assumes "try_call_tool env c n a st = (r, s1)"
  shows "heap s1 = heap st \<and> next_addr s1 = next_addr st \<and>
         (\<exists>outcome. trace s1 = trace st @ [EvTool n a outcome] \<and> r = except_Exception env n a outcome)"
  using assms
  by (auto simp: try_call_tool_def remote_def Let_def split: prod.splits)

lemma list_copy_effect:
  assumes "list_copy a st = (r, s1)"
  shows "r = Inr (next_addr st) \<and> heap s1 = (heap st)(next_addr st := heap st a) \<and>
         next_addr s1 = Suc (next_addr st) \<and> trace s1 = trace st"
  using assms by (auto simp: list_copy_def)

lemma list_append_effect:
  assumes "list_append a x st = (r, s1)"
  shows "r = Inr () \<and> heap s1 = (heap st)(a := heap st a @ [x]) \<and>
         next_addr s1 = next_addr st \<and> trace s1 = trace st"
  using assms by (auto simp: list_append_def)

lemma list_read_effect:
  assumes "list_read a st = (r, s1)"
  shows "r = Inr (heap st a) \<and> s1 = st"
  using assms by (auto simp: list_read_def)

lemma lift_effect:
  assumes "lift v st = (r, s1)"
  shows "r = v \<and> s1 = st"
  using assms by (auto simp: lift_def)

lemma return_effect:
  assumes "return v st = (r, s1)"
  shows "r = Inr v \<and> s1 = st"
  using assms by (auto simp: return_def)


lemmas effects = init_utcp_effect discover_tools_effect chat_complete_effect try_call_tool_effect
  list_copy_effect list_append_effect list_read_effect lift_effect return_effect

lemma new_events_append [simp]: "trace st' = trace st @ evs \<Longrightarrow> new_events st st' = evs"
  by (simp add: new_events_def)

text \<open>The no-tool path: when the phase-1 reply yields no tool call, the raw reply is
  returned twice with the sentinel text, and nothing else is called.\<close>

lemma handle_user_query_no_tool:
  assumes "handle_user_query env u a st = (out, st')"
    and "phase1_reply (new_events st st') = Some raw"
    and "no_tool_chosen (extract_tool_json raw) = Inr True"
  shows "out = Inr (raw, ''(no tool called)'', raw, next_addr st) \<and>
         heap st' (next_addr st) = heap st a @ [(''user'', u), (''assistant'', raw)] \<and>
         tool_calls (new_events st st') = 0 \<and>
         completion_calls (new_events st st') = 1"
  using assms unfolding handle_user_query_def Let_def
  by (auto elim!: bindE dest!: effects split: if_splits
        simp: completion_calls_def tool_calls_def phase1_reply_def)

section \<open>Properties of \<^verbatim>\<open>handle_user_query\<close>\<close>

text \<open>
  Claim C1: when the execution of the tool call raises an exception (the call itself, or
  the serialisation of its result, raises an \<^verbatim>\<open>Exception\<close> with text \<open>msg\<close>), the failure
  is caught: the tool-result text is \<^verbatim>\<open>Tool call error for <name> with args <arguments>:\<close>
  followed by the error text, so it contains the tool name, the arguments and the error
  text; the phase-2 completion is still performed, with that text, as the second and last
  completion call; and the orchestrator ends as that completion ends: when it returns a
  final answer, the orchestrator returns normally with the serialised call, the
  diagnostic text, the final answer, and a history grown by exactly three turns (user,
  assistant call, assistant final). The tool failure never aborts the orchestrator.
\<close>

theorem tool_failure_contained:
  assumes "handle_user_query env u a st = (out, st')"
    and "EvTool name args (Inl (Exception msg)) \<in> set (new_events st st')"
  shows "tool_error_text env name args msg =
           ''Tool call error for '' @ py_str env name @ '' with args '' @ py_str env args @
           '':'' @ newline @ msg \<and>
         (\<exists>raw r2.
            phase1_reply (new_events st st') = Some raw \<and>
            last (new_events st st') =
              EvChat (build_final_messages
                        (heap st a @ [(''user'', u),
                           (''assistant'', dumps_tool_obj env (extract_tool_json raw))])
                        (tool_error_text env name args msg)) r2 \<and>
            completion_calls (new_events st st') = 2 \<and>
            out = (case r2 of
                     Inl e \<Rightarrow> Inl e
                   | Inr final \<Rightarrow>
                       Inr (dumps_tool_obj env (extract_tool_json raw),
                            tool_error_text env name args msg, final, next_addr st)) \<and>
            (\<forall>final. r2 = Inr final \<longrightarrow>
               heap st' (next_addr st) =
                 heap st a @ [(''user'', u),
                   (''assistant'', dumps_tool_obj env (extract_tool_json raw)),
                   (''assistant'', final)]))"
proof
  show "tool_error_text env name args msg =
           ''Tool call error for '' @ py_str env name @ '' with args '' @ py_str env args @
           '':'' @ newline @ msg"
    by (simp add: tool_error_text_def)
next
  show "\<exists>raw r2.
            phase1_reply (new_events st st') = Some raw \<and>
            last (new_events st st') =
              EvChat (build_final_messages
                        (heap st a @ [(''user'', u),
                           (''assistant'', dumps_tool_obj env (extract_tool_json raw))])
                        (tool_error_text env name args msg)) r2 \<and>
            completion_calls (new_events st st') = 2 \<and>
            out = (case r2 of
                     Inl e \<Rightarrow> Inl e
                   | Inr final \<Rightarrow>
                       Inr (dumps_tool_obj env (extract_tool_json raw),
                            tool_error_text env name args msg, final, next_addr st)) \<and>
            (\<forall>final. r2 = Inr final \<longrightarrow>
               heap st' (next_addr st) =
                 heap st a @ [(''user'', u),
                   (''assistant'', dumps_tool_obj env (extract_tool_json raw)),
                   (''assistant'', final)])"
    using assms unfolding handle_user_query_def Let_def
    by (auto elim!: bindE dest!: effects split: if_splits
          simp: completion_calls_def phase1_reply_def except_Exception_def)
qed

theorem tool_failure_contained_witness:
  \<open>EvTool (JString ''t'') (JObject [(''a'', JInt 1)]) (Inl (Exception ''boom''))
     \<in> set (new_events sample_state
          (snd (handle_user_query
                  (sample_env (Some ''{"tool_name":"t","arguments":{"a":1}}'') (Inl (Exception ''boom'')))
                  ''q'' 0 sample_state)))
   \<and> fst (handle_user_query
            (sample_env (Some ''{"tool_name":"t","arguments":{"a":1}}'') (Inl (Exception ''boom'')))
            ''q'' 0 sample_state)
       = Inr (''json'', ''Tool call error for t with args repr:'' @ newline @ ''boom'',
              ''Here is the answer.'', 1)
   \<and> heap (snd (handle_user_query
            (sample_env (Some ''{"tool_name":"t","arguments":{"a":1}}'') (Inl (Exception ''boom'')))
            ''q'' 0 sample_state)) 1
       = [(''user'', ''hi''), (''assistant'', ''hello''), (''user'', ''q''),
          (''assistant'', ''json''), (''assistant'', ''Here is the answer.'')]\<close>
proof -
  let ?E = \<open>sample_env (Some ''{"tool_name":"t","arguments":{"a":1}}'') (Inl (Exception ''boom''))\<close>
  let ?r = \<open>handle_user_query ?E ''q'' 0 sample_state\<close>
  have run: "?r = (fst ?r, snd ?r)"
    by simp
  have ev: \<open>EvTool (JString ''t'') (JObject [(''a'', JInt 1)]) (Inl (Exception ''boom''))
     \<in> set (new_events sample_state (snd ?r))\<close>
    by code_simp
  have out: \<open>fst ?r = Inr (''json'', ''Tool call error for t with args repr:'' @ newline @ ''boom'',
              ''Here is the answer.'', 1)\<close>
    by code_simp
  have hp: \<open>heap (snd ?r) 1 = [(''user'', ''hi''), (''assistant'', ''hello''), (''user'', ''q''),
          (''assistant'', ''json''), (''assistant'', ''Here is the answer.'')]\<close>
    by code_simp
  from tool_failure_contained [OF run ev] have "completion_calls (new_events sample_state (snd ?r)) = 2"
    by blast
  with ev out hp show ?thesis by blast
qed

text \<open>
  Claim C2: when the phase-1 reply yields no tool call (nothing decodes, or the decoded
  value is empty or lacks a key), the orchestrator returns normally, the tool-result text
  is \<^verbatim>\<open>(no tool called)\<close>, the final answer and the proposed call both are the raw
  reply, no tool is executed, exactly one completion call is made, and the returned
  history is the input history followed by exactly two turns: the user turn and the raw
  reply as an assistant turn.
\<close>

theorem no_tool_outcome:
  assumes "handle_user_query env u a st = (out, st')"
    and "phase1_reply (new_events st st') = Some raw"
    and "no_tool_chosen (extract_tool_json raw) = Inr True"
  shows "out = Inr (raw, ''(no tool called)'', raw, next_addr st) \<and>
         heap st' (next_addr st) = heap st a @ [(''user'', u), (''assistant'', raw)] \<and>
         tool_calls (new_events st st') = 0 \<and>
         completion_calls (new_events st st') = 1"
  using assms by (rule handle_user_query_no_tool)

theorem no_tool_outcome_witness:
  \<open>phase1_reply (new_events sample_state
      (snd (handle_user_query (sample_env (Some ''Hello there'') (Inr JNull)) ''q'' 0 sample_state)))
     = Some ''Hello there''
   \<and> no_tool_chosen (extract_tool_json ''Hello there'') = Inr True
   \<and> fst (handle_user_query (sample_env (Some ''Hello there'') (Inr JNull)) ''q'' 0 sample_state)
       = Inr (''Hello there'', ''(no tool called)'', ''Hello there'', 1)
   \<and> heap (snd (handle_user_query (sample_env (Some ''Hello there'') (Inr JNull)) ''q'' 0 sample_state)) 1
       = [(''user'', ''hi''), (''assistant'', ''hello''), (''user'', ''q''), (''assistant'', ''Hello there'')]\<close>
proof -
  let ?E = \<open>sample_env (Some ''Hello there'') (Inr JNull)\<close>
  let ?r = \<open>handle_user_query ?E ''q'' 0 sample_state\<close>
  have run: "?r = (fst ?r, snd ?r)"
    by simp
  have h2: \<open>phase1_reply (new_events sample_state (snd ?r)) = Some ''Hello there''\<close>
    by code_simp
  have h3: "no_tool_chosen (extract_tool_json ''Hello there'') = Inr True"
    by code_simp
  have ns: "next_addr sample_state = 1" and hp: "heap sample_state 0 = [(''user'', ''hi''), (''assistant'', ''hello'')]"
    by (simp_all add: sample_state_def)
  show ?thesis
    using no_tool_outcome [OF run h2 h3] h2 h3 ns hp by simp
qed

text \<open>
  Claim C7: the list object of the caller's history is never changed: after the call,
  whether it returned or raised, the caller's list and every other list that existed
  before hold what they held; a returned history is a new list object; and when a
  completion call or the discovery call raises, the orchestrator raises that exception,
  so that no history is returned.
\<close>

theorem caller_history_unchanged:
  assumes "handle_user_query env u a st = (out, st')"
    and "a < next_addr st"
  shows "heap st' a = heap st a \<and>
         (\<forall>b < next_addr st. heap st' b = heap st b) \<and>
         (\<forall>p t f h. out = Inr (p, t, f, h) \<longrightarrow> h = next_addr st \<and> h \<noteq> a) \<and>
         (\<forall>m e. EvChat m (Inl e) \<in> set (new_events st st') \<longrightarrow> out = Inl e) \<and>
         (\<forall>q l e. EvSearch q l (Some e) \<in> set (new_events st st') \<longrightarrow> out = Inl e)"
  using assms unfolding handle_user_query_def Let_def
  by (auto elim!: bindE dest!: effects split: if_splits sum.splits)

theorem caller_history_unchanged_witness:
  \<open>(0::nat) < next_addr sample_state
   \<and> heap (snd (handle_user_query
            (sample_env (Some ''{"tool_name":"t","arguments":{"a":1}}'') (Inr JNull))
            ''q'' 0 sample_state)) 0
       = [(''user'', ''hi''), (''assistant'', ''hello'')]\<close>
proof -
  let ?E = \<open>sample_env (Some ''{"tool_name":"t","arguments":{"a":1}}'') (Inr JNull)\<close>
  let ?r = \<open>handle_user_query ?E ''q'' 0 sample_state\<close>
  have run: "?r = (fst ?r, snd ?r)"
    by simp
  have lt: "(0::nat) < next_addr sample_state"
    by (simp add: sample_state_def)
  have hp: "heap sample_state 0 = [(''user'', ''hi''), (''assistant'', ''hello'')]"
    by (simp add: sample_state_def)
  from caller_history_unchanged [OF run lt] have "heap (snd ?r) 0 = heap sample_state 0"
    by blast
  with lt hp show ?thesis by simp
qed

text \<open>
  Claim C8: an invocation that returns normally has made exactly one completion call when
  the phase-1 reply yields no tool call, and exactly two when it yields one; never none
  and never more than two.
\<close>

theorem completion_calls_one_or_two:
  assumes "handle_user_query env u a st = (Inr res, st')"
  shows "(\<exists>raw. phase1_reply (new_events st st') = Some raw \<and>
            no_tool_chosen (extract_tool_json raw) = Inr True \<and>
            completion_calls (new_events st st') = 1 \<and> tool_calls (new_events st st') = 0) \<or>
         (\<exists>raw. phase1_reply (new_events st st') = Some raw \<and>
            no_tool_chosen (extract_tool_json raw) = Inr False \<and>
            completion_calls (new_events st st') = 2 \<and> tool_calls (new_events st st') = 1)"
  using assms unfolding handle_user_query_def Let_def
  by (auto elim!: bindE dest!: effects split: if_splits
        simp: completion_calls_def tool_calls_def phase1_reply_def) blast+

theorem completion_calls_one_or_two_witness:
  \<open>fst (handle_user_query
          (sample_env (Some ''{"tool_name":"t","arguments":{"a":1}}'') (Inr JNull))
          ''q'' 0 sample_state)
     = Inr (''json'', ''result'', ''Here is the answer.'', 1)
   \<and> completion_calls (new_events sample_state
        (snd (handle_user_query
                (sample_env (Some ''{"tool_name":"t","arguments":{"a":1}}'') (Inr JNull))
                ''q'' 0 sample_state))) = 2\<close>
proof -
  let ?E = \<open>sample_env (Some ''{"tool_name":"t","arguments":{"a":1}}'') (Inr JNull)\<close>
  let ?r = \<open>handle_user_query ?E ''q'' 0 sample_state\<close>
  have out: \<open>fst ?r = Inr (''json'', ''result'', ''Here is the answer.'', 1)\<close>
    by code_simp
  then have run: \<open>?r = (Inr (''json'', ''result'', ''Here is the answer.'', 1), snd ?r)\<close>
    by (simp add: prod_eq_iff)
  have nt: \<open>no_tool_chosen (extract_tool_json ''{"tool_name":"t","arguments":{"a":1}}'') = Inr False\<close>
    by code_simp
  have p1: \<open>phase1_reply (new_events sample_state (snd ?r)) = Some ''{"tool_name":"t","arguments":{"a":1}}''\<close>
    by code_simp
  from completion_calls_one_or_two [OF run] nt p1
  have "completion_calls (new_events sample_state (snd ?r)) = 2"
    by auto
  with out show ?thesis by blast
qed

text \<open>
  Claim C3, as stated, says that a reply whose \<^verbatim>\<open>arguments\<close> value is a scalar or an array
  is treated as no call. It fails on the reply \<^verbatim>\<open>{"tool_name":"t","arguments":5}\<close>: the
  condition of the source tests the presence of the two keys only, the tool \<^verbatim>\<open>t\<close> is
  executed with the arguments \<^verbatim>\<open>5\<close>, and the tool path is taken.
\<close>

theorem scalar_arguments_executed:
  \<open>extract_tool_json ''{"tool_name":"t","arguments":5}''
     = Some (JObject [(''tool_name'', JString ''t''), (''arguments'', JInt 5)])
   \<and> no_tool_chosen (extract_tool_json ''{"tool_name":"t","arguments":5}'') = Inr False
   \<and> fst (handle_user_query (sample_env (Some ''{"tool_name":"t","arguments":5}'') (Inr JNull))
            ''q'' 0 sample_state)
       = Inr (''json'', ''result'', ''Here is the answer.'', 1)
   \<and> EvTool (JString ''t'') (JInt 5) (Inr ''result'')
       \<in> set (trace (snd (handle_user_query
                 (sample_env (Some ''{"tool_name":"t","arguments":5}'') (Inr JNull))
                 ''q'' 0 sample_state)))\<close>
  by code_simp

text \<open>
  Claim C3, amended: when the phase-1 reply decodes to an object, the tool call is treated
  as valid and executed exactly when both keys \<^verbatim>\<open>tool_name\<close> and \<^verbatim>\<open>arguments\<close> are present;
  the value of \<^verbatim>\<open>arguments\<close> is forwarded to the tool as it is, whatever its JSON type. A
  reply whose object lacks one of the keys takes the no-tool path.
\<close>

theorem tool_call_needs_only_keys:
  assumes "handle_user_query env u a st = (out, st')"
    and "phase1_reply (new_events st st') = Some raw"
    and "extract_tool_json raw = Some (JObject d)"
  shows "(map_of d ''tool_name'' = Some n \<and> map_of d ''arguments'' = Some v \<longrightarrow>
            tool_calls (new_events st st') = 1 \<and>
            (\<exists>outcome. EvTool n v outcome \<in> set (new_events st st'))) \<and>
         (map_of d ''tool_name'' = None \<or> map_of d ''arguments'' = None \<longrightarrow>
            tool_calls (new_events st st') = 0 \<and>
            out = Inr (raw, ''(no tool called)'', raw, next_addr st))"
proof (intro conjI impI)
  assume k: "map_of d ''tool_name'' = None \<or> map_of d ''arguments'' = None"
  with assms(3) have "no_tool_chosen (extract_tool_json raw) = Inr True"
    by (auto simp: no_tool_chosen_def)
  from handle_user_query_no_tool [OF assms(1,2) this]
  show "tool_calls (new_events st st') = 0"
    and "out = Inr (raw, ''(no tool called)'', raw, next_addr st)"
    by simp_all
next
  assume k: "map_of d ''tool_name'' = Some n \<and> map_of d ''arguments'' = Some v"
  then have ne: "d \<noteq> []" by auto
  with k assms(3) have nt: "no_tool_chosen (extract_tool_json raw) = Inr False"
    and i1: "tool_obj_item (extract_tool_json raw) ''tool_name'' = Inr n"
    and i2: "tool_obj_item (extract_tool_json raw) ''arguments'' = Inr v"
    by (auto simp: no_tool_chosen_def tool_obj_item_def)
  from assms(1,2) nt i1 i2
  show "tool_calls (new_events st st') = 1"
    unfolding handle_user_query_def Let_def
    by (auto elim!: bindE dest!: effects split: if_splits
          simp: tool_calls_def phase1_reply_def)
  from assms(1,2) nt i1 i2
  show "\<exists>outcome. EvTool n v outcome \<in> set (new_events st st')"
    unfolding handle_user_query_def Let_def
    by (auto elim!: bindE dest!: effects split: if_splits
          simp: phase1_reply_def)
qed

theorem tool_call_needs_only_keys_witness:
  \<open>(phase1_reply (new_events sample_state
        (snd (handle_user_query (sample_env (Some ''{"tool_name":"t","arguments":[1]}'') (Inr JNull))
                ''q'' 0 sample_state)))
      = Some ''{"tool_name":"t","arguments":[1]}''
    \<and> extract_tool_json ''{"tool_name":"t","arguments":[1]}''
        = Some (JObject [(''tool_name'', JString ''t''), (''arguments'', JArray [JInt 1])])
    \<and> map_of [(''tool_name'', JString ''t''), (''arguments'', JArray [JInt 1])] ''tool_name'' = Some (JString ''t'')
    \<and> map_of [(''tool_name'', JString ''t''), (''arguments'', JArray [JInt 1])] ''arguments'' = Some (JArray [JInt 1])
    \<and> tool_calls (new_events sample_state
        (snd (handle_user_query (sample_env (Some ''{"tool_name":"t","arguments":[1]}'') (Inr JNull))
                ''q'' 0 sample_state))) = 1)
   \<and> (phase1_reply (new_events sample_state
        (snd (handle_user_query (sample_env (Some ''{"tool_name":"t"}'') (Inr JNull))
                ''q'' 0 sample_state)))
      = Some ''{"tool_name":"t"}''
    \<and> extract_tool_json ''{"tool_name":"t"}'' = Some (JObject [(''tool_name'', JString ''t'')])
    \<and> map_of [(''tool_name'', JString ''t'')] ''arguments'' = None
    \<and> tool_calls (new_events sample_state
        (snd (handle_user_query (sample_env (Some ''{"tool_name":"t"}'') (Inr JNull))
                ''q'' 0 sample_state))) = 0)\<close>
proof -
  let ?r1 = \<open>handle_user_query (sample_env (Some ''{"tool_name":"t","arguments":[1]}'') (Inr JNull)) ''q'' 0 sample_state\<close>
  let ?r2 = \<open>handle_user_query (sample_env (Some ''{"tool_name":"t"}'') (Inr JNull)) ''q'' 0 sample_state\<close>
  have run1: "?r1 = (fst ?r1, snd ?r1)" and run2: "?r2 = (fst ?r2, snd ?r2)"
    by simp_all
  have p1: \<open>phase1_reply (new_events sample_state (snd ?r1)) = Some ''{"tool_name":"t","arguments":[1]}''\<close>
    by code_simp
  have e1: \<open>extract_tool_json ''{"tool_name":"t","arguments":[1]}''
        = Some (JObject [(''tool_name'', JString ''t''), (''arguments'', JArray [JInt 1])])\<close>
    by code_simp
  have k1: "map_of [(''tool_name'', JString ''t''), (''arguments'', JArray [JInt 1])] ''tool_name'' = Some (JString ''t'')"
    and k2: "map_of [(''tool_name'', JString ''t''), (''arguments'', JArray [JInt 1])] ''arguments'' = Some (JArray [JInt 1])"
    by simp_all
  have p2: \<open>phase1_reply (new_events sample_state (snd ?r2)) = Some ''{"tool_name":"t"}''\<close>
    by code_simp
  have e2: \<open>extract_tool_json ''{"tool_name":"t"}'' = Some (JObject [(''tool_name'', JString ''t'')])\<close>
    by code_simp
  have k3: "map_of [(''tool_name'', JString ''t'')] ''arguments'' = None"
    by simp
  from tool_call_needs_only_keys [OF run1 p1 e1, of "JString ''t''" "JArray [JInt 1]"] k1 k2
  have c1: "tool_calls (new_events sample_state (snd ?r1)) = 1"
    by blast
  from tool_call_needs_only_keys [OF run2 p2 e2] k3
  have c2: "tool_calls (new_events sample_state (snd ?r2)) = 0"
    by blast
  from p1 e1 k1 k2 c1 p2 e2 k3 c2 show ?thesis
    by blast
qed

section \<open>Null content of the completion\<close>

text \<open>
  Claim C10: \<^verbatim>\<open>chat_complete\<close> returns a string whenever the completion call returns: the
  content itself, and the empty string when the content is \<^verbatim>\<open>None\<close>. On the empty string
  \<^verbatim>\<open>extract_tool_json\<close> returns \<^verbatim>\<open>None\<close>, so a phase-1 reply with null content takes the
  no-tool path and the orchestrator returns normally.
\<close>

theorem null_content_takes_no_tool_path:
  "fst (chat_complete env msgs st) =
     (case fst (completion_content env msgs (world st)) of
        Inl e \<Rightarrow> Inl e
      | Inr None \<Rightarrow> Inr []
      | Inr (Some t) \<Rightarrow> Inr t) \<and>
   extract_tool_json [] = None \<and>
   no_tool_chosen (extract_tool_json []) = Inr True \<and>
   (handle_user_query env u a st = (out, st') \<and> phase1_reply (new_events st st') = Some [] \<longrightarrow>
      out = Inr ([], ''(no tool called)'', [], next_addr st) \<and>
      heap st' (next_addr st) = heap st a @ [(''user'', u), (''assistant'', [])])"
proof (intro conjI impI)
  show "fst (chat_complete env msgs st) =
     (case fst (completion_content env msgs (world st)) of
        Inl e \<Rightarrow> Inl e
      | Inr None \<Rightarrow> Inr []
      | Inr (Some t) \<Rightarrow> Inr t)"
    by (simp add: chat_complete_def remote_def Let_def split: prod.splits sum.splits option.splits)
  show e: "extract_tool_json [] = None"
    by code_simp
  then show n: "no_tool_chosen (extract_tool_json []) = Inr True"
    by (simp add: no_tool_chosen_def)
  assume h: "handle_user_query env u a st = (out, st') \<and> phase1_reply (new_events st st') = Some []"
  from handle_user_query_no_tool [OF conjunct1 [OF h] conjunct2 [OF h] n]
  show "out = Inr ([], ''(no tool called)'', [], next_addr st)"
    and "heap st' (next_addr st) = heap st a @ [(''user'', u), (''assistant'', [])]"
    by simp_all
qed

theorem null_content_takes_no_tool_path_witness:
  \<open>phase1_reply (new_events sample_state
      (snd (handle_user_query (sample_env None (Inr JNull)) ''q'' 0 sample_state))) = Some []
   \<and> fst (handle_user_query (sample_env None (Inr JNull)) ''q'' 0 sample_state)
       = Inr ([], ''(no tool called)'', [], 1)\<close>
proof -
  let ?r = \<open>handle_user_query (sample_env None (Inr JNull)) ''q'' 0 sample_state\<close>
  have run: "?r = (fst ?r, snd ?r)"
    by simp
  have p: "phase1_reply (new_events sample_state (snd ?r)) = Some []"
    by code_simp
  have ns: "next_addr sample_state = 1"
    by (simp add: sample_state_def)
  from null_content_takes_no_tool_path [where env = "sample_env None (Inr JNull)" and u = "''q''"
      and a = 0 and st = sample_state and out = "fst ?r" and st' = "snd ?r"]
    run p ns
  have "fst ?r = Inr ([], ''(no tool called)'', [], 1)"
    by simp
  with p show ?thesis by blast
qed

section \<open>Initialisation of the shared client\<close>

text \<open>
  Claim C9, as stated, says that concurrent first requests construct the client at most
  once, under a guard. The source has no guard: with two tasks that both test the global
  before either construction has finished (the schedule 0, 1, 0, 1), the client is
  constructed twice, the tasks hold different handles, and the global keeps the second.
\<close>

theorem concurrent_init_constructs_twice:
  "constructions (trace (fst (run_schedule (sample_env None (Inr JNull)) [0, 1, 0, 1]
                                (sample_state, [NotStarted, NotStarted])))) = 2
   \<and> snd (run_schedule (sample_env None (Inr JNull)) [0, 1, 0, 1]
            (sample_state, [NotStarted, NotStarted]))
       = [Finished (Inr 7), Finished (Inr 8)]
   \<and> utcp_client (fst (run_schedule (sample_env None (Inr JNull)) [0, 1, 0, 1]
                          (sample_state, [NotStarted, NotStarted]))) = Some 8"
  by code_simp

lemma init_utcp_already:
  "utcp_client st = Some c \<Longrightarrow> init_utcp env st = (Inr c, st)"
  by (simp add: init_utcp_def init_utcp_begin_def)

lemma init_utcp_sets_global:
  "init_utcp env st = (Inr c, st') \<Longrightarrow> utcp_client st' = Some c"
  by (auto simp: init_utcp_def init_utcp_begin_def init_utcp_resume_def remote_def
        split: option.splits prod.splits sum.splits)

text \<open>
  Claim C9, amended: \<^verbatim>\<open>init_utcp\<close> is lazy and unguarded. A call that finds the global
  handle set returns that handle and leaves the state as it is, constructing nothing and
  taking no lock; a call that returns a handle has set the global to it and has started
  at most one construction, so that every later call returns the same handle; and two
  calls that do not overlap (the schedule 0, 0, 1, 1) construct what the first call alone
  constructs and both return its handle. Calls that overlap may each construct a client.
\<close>

theorem init_utcp_lazy_unguarded:
  "(utcp_client st = Some c \<longrightarrow> init_utcp env st = (Inr c, st)) \<and>
   (init_utcp env st = (Inr c, st') \<longrightarrow>
      utcp_client st' = Some c \<and>
      constructions (new_events st st') \<le> 1 \<and>
      init_utcp env st' = (Inr c, st') \<and>
      run_schedule env [0, 0, 1, 1] (st, [NotStarted, NotStarted])
        = (st', [Finished (Inr c), Finished (Inr c)]))"
proof (intro conjI impI)
  show "init_utcp env st = (Inr c, st)" if "utcp_client st = Some c"
    using that by (rule init_utcp_already)
next
  assume r: "init_utcp env st = (Inr c, st')"
  then show u: "utcp_client st' = Some c"
    by (rule init_utcp_sets_global)
  then show "init_utcp env st' = (Inr c, st')"
    by (rule init_utcp_already)
  from init_utcp_effect [OF r] show "constructions (new_events st st') \<le> 1"
    by (auto simp: constructions_def)
  show "run_schedule env [0, 0, 1, 1] (st, [NotStarted, NotStarted])
        = (st', [Finished (Inr c), Finished (Inr c)])"
    using r u
    by (auto simp: task_step_def init_utcp_def init_utcp_begin_def
          split: option.splits prod.splits sum.splits)
qed

theorem init_utcp_lazy_unguarded_witness:
  "(utcp_client (sample_state\<lparr>utcp_client := Some 3\<rparr>) = Some 3
    \<and> init_utcp (sample_env None (Inr JNull)) (sample_state\<lparr>utcp_client := Some 3\<rparr>)
        = (Inr 3, sample_state\<lparr>utcp_client := Some 3\<rparr>))
   \<and> (fst (init_utcp (sample_env None (Inr JNull)) sample_state) = Inr 7
    \<and> utcp_client (snd (init_utcp (sample_env None (Inr JNull)) sample_state)) = Some 7
    \<and> snd (run_schedule (sample_env None (Inr JNull)) [0, 0, 1, 1] (sample_state, [NotStarted, NotStarted]))
        = [Finished (Inr 7), Finished (Inr 7)])"
proof -
  let ?E = "sample_env None (Inr JNull)"
  let ?s = "sample_state\<lparr>utcp_client := Some 3\<rparr>"
  let ?r = "init_utcp ?E sample_state"
  have g: "utcp_client ?s = Some 3"
    by simp
  have f: "fst ?r = Inr 7"
    by code_simp
  then have run: "?r = (Inr 7, snd ?r)"
    by (simp add: prod_eq_iff)
  from init_utcp_lazy_unguarded [of ?s 3 ?E] g
  have a: "init_utcp ?E ?s = (Inr 3, ?s)"
    by blast
  from init_utcp_lazy_unguarded [of sample_state 7 ?E "snd ?r"] run
  have b: "utcp_client (snd ?r) = Some 7"
    and c: "run_schedule ?E [0, 0, 1, 1] (sample_state, [NotStarted, NotStarted])
        = (snd ?r, [Finished (Inr 7), Finished (Inr 7)])"
    by blast+
  from g a f b c show ?thesis by simp
qed

end
